theory Spec2Isabelle
  imports Complex_Main "HOL-Library.AList"
begin

section \<open>JavaScript values\<close>

text \<open>
  The values \<^verbatim>\<open>server.js\<close> handles are the results of \<^verbatim>\<open>JSON.parse\<close>, strings taken
  from the URL and the process environment, and \<^verbatim>\<open>undefined\<close>. Strings are lists of
  8-bit characters (UTF-8 bytes). A finite number is the rational it denotes (so \<open>-0\<close> and
  \<open>0\<close> coincide; both are falsy and print alike). An object is the list of its own
  properties in insertion order.
\<close>

datatype jsnum = NaN | PosInf | NegInf | Fin rat

datatype jsval =
    JUndefined
  | JNull
  | JBool bool
  | JNum jsnum
  | JStr string
  | JArr "jsval list"
  | JObj "(string \<times> jsval) list"

text \<open>
  Thrown values. Every value thrown in \<^verbatim>\<open>server.js\<close> is an Error object, of which the
  handlers read \<^verbatim>\<open>message\<close> and, for file-system errors, \<^verbatim>\<open>code\<close>.
\<close>

datatype js_error =
    Error string
  | TypeError string
  | SystemError string string

fun message :: "js_error \<Rightarrow> string" where
  "message (Error m) = m"
| "message (TypeError m) = m"
| "message (SystemError c m) = m"

fun code :: "js_error \<Rightarrow> string option" where
  "code (SystemError c m) = Some c"
| "code e = None"

text \<open>ToBoolean: what \<^verbatim>\<open>!x\<close>, \<^verbatim>\<open>x || y\<close> and \<^verbatim>\<open>if (x)\<close> test.\<close>

fun is_truthy :: "jsval \<Rightarrow> bool" where
  "is_truthy JUndefined = False"
| "is_truthy JNull = False"
| "is_truthy (JBool b) = b"
| "is_truthy (JNum n) = (n \<noteq> NaN \<and> n \<noteq> Fin 0)"
| "is_truthy (JStr s) = (s \<noteq> [])"
| "is_truthy (JArr xs) = True"
| "is_truthy (JObj kvs) = True"

text \<open>\<^verbatim>\<open>a || b\<close> on values (both operands here are free of effects).\<close>

definition js_or :: "jsval \<Rightarrow> jsval \<Rightarrow> jsval" where
  "js_or a b = (if is_truthy a then a else b)"

text \<open>
  \<^verbatim>\<open>v[k]\<close> and \<^verbatim>\<open>v.k\<close> on a value that is neither \<^verbatim>\<open>undefined\<close> nor \<^verbatim>\<open>null\<close>, for the
  property names this program reads (\<^verbatim>\<open>title\<close>, \<^verbatim>\<open>description\<close>, \<^verbatim>\<open>status\<close>, \<^verbatim>\<open>repoURL\<close>,
  \<^verbatim>\<open>dependsOn\<close>, \<^verbatim>\<open>parentID\<close>, \<^verbatim>\<open>taskID\<close>, \<^verbatim>\<open>limit\<close>, \<^verbatim>\<open>ready\<close>, \<^verbatim>\<open>ok\<close>, \<^verbatim>\<open>error\<close>,
  \<^verbatim>\<open>message\<close>, \<^verbatim>\<open>apiKey\<close>, \<^verbatim>\<open>apiKey@https://ampcode.com/\<close>): none of them is defined by a
  built-in prototype, so only an object's own properties are found, and a string, number,
  boolean or array has none of them.
\<close>

fun get_prop :: "jsval \<Rightarrow> string \<Rightarrow> jsval" where
  "get_prop (JObj kvs) k = (case map_of kvs k of Some v \<Rightarrow> v | None \<Rightarrow> JUndefined)"
| "get_prop v k = JUndefined"

text \<open>
  Member access as an expression: on \<^verbatim>\<open>undefined\<close> and \<^verbatim>\<open>null\<close> it throws a TypeError
  (the message is V8's).
\<close>

definition member_access :: "jsval \<Rightarrow> string \<Rightarrow> js_error + jsval" where
  "member_access v k =
     (if v = JUndefined then
        Inl (TypeError (''Cannot read properties of undefined (reading '' @ [CHR 0x27] @ k @ [CHR 0x27] @ '')''))
      else if v = JNull then
        Inl (TypeError (''Cannot read properties of null (reading '' @ [CHR 0x27] @ k @ [CHR 0x27] @ '')''))
      else Inr (get_prop v k))"

text \<open>Optional chaining \<^verbatim>\<open>v?.k\<close>.\<close>

definition optional_access :: "jsval \<Rightarrow> string \<Rightarrow> jsval" where
  "optional_access v k = (if v = JUndefined \<or> v = JNull then JUndefined else get_prop v k)"

section \<open>The platform and the outside world\<close>

text \<open>One outbound HTTPS exchange: the \<^verbatim>\<open>options\<close> of \<^verbatim>\<open>https.request\<close> and the body written.\<close>

record remote_call =
  hostname :: string
  port :: nat
  path :: string
  http_method :: string
  headers :: "(string \<times> jsval) list"
  written :: string

text \<open>
  What the program takes from Node.js and from its surroundings, per request:
  \<^item> \<open>process_env\<close>: the environment variables;
  \<^item> \<open>path_join\<close>, \<open>path_extname\<close>: \<^verbatim>\<open>path.join\<close> on two strings, \<^verbatim>\<open>path.extname\<close>;
  \<^item> \<open>readFileSync\<close>: the content of a file, or the error thrown;
  \<^item> \<open>JSON_parse\<close>: \<open>None\<close> when \<^verbatim>\<open>JSON.parse\<close> throws a SyntaxError;
  \<^item> \<open>JSON_stringify\<close>: \<^verbatim>\<open>JSON.stringify\<close>;
  \<^item> \<open>ToString_other\<close>: string conversion of numbers, arrays and objects, \<open>None\<close> when it
    throws (an object whose own \<^verbatim>\<open>toString\<close> is not callable);
  \<^item> \<open>https_request\<close>: the outcome of one exchange with the remote host, either the error
    of the request's \<^verbatim>\<open>error\<close> event or the concatenated chunks at the response's \<^verbatim>\<open>end\<close>
    (an exchange that never completes is outside the model: the code sets no timeout);
  \<^item> \<open>dirname\<close>: \<^verbatim>\<open>__dirname\<close>; \<open>now_iso\<close>: \<^verbatim>\<open>new Date().toISOString()\<close>.
\<close>

record world =
  process_env :: "string \<Rightarrow> string option"
  path_join :: "string \<Rightarrow> string \<Rightarrow> string"
  path_extname :: "string \<Rightarrow> string"
  readFileSync :: "string \<Rightarrow> js_error + string"
  JSON_parse :: "string \<Rightarrow> jsval option"
  JSON_stringify :: "jsval \<Rightarrow> string"
  ToString_other :: "jsval \<Rightarrow> string option"
  https_request :: "remote_call \<Rightarrow> js_error + string"
  dirname :: string
  now_iso :: string

text \<open>\<^verbatim>\<open>process.env.NAME\<close> as a value.\<close>

definition env_var :: "world \<Rightarrow> string \<Rightarrow> jsval" where
  "env_var w name = (case process_env w name of None \<Rightarrow> JUndefined | Some s \<Rightarrow> JStr s)"

text \<open>ToString, as a template literal and \<^verbatim>\<open>new Error(v)\<close> apply it.\<close>

fun ToString :: "world \<Rightarrow> jsval \<Rightarrow> string option" where
  "ToString w JUndefined = Some ''undefined''"
| "ToString w JNull = Some ''null''"
| "ToString w (JBool b) = Some (if b then ''true'' else ''false'')"
| "ToString w (JStr s) = Some s"
| "ToString w v = ToString_other w v"

section \<open>Credential resolution\<close>

text \<open>
  \<^verbatim>\<open>getApiKey\<close> (lines 31-46). The path is computed outside the \<^verbatim>\<open>try\<close>: when neither
  \<^verbatim>\<open>HOME\<close> nor \<^verbatim>\<open>USERPROFILE\<close> is set, \<^verbatim>\<open>path.join(undefined, ...)\<close> throws a TypeError that
  leaves the function. Inside the \<^verbatim>\<open>try\<close>, a failing read, a failing parse and a property
  read on \<^verbatim>\<open>null\<close> all end in the \<^verbatim>\<open>catch\<close>, which returns the environment variable.
\<close>

definition secretsPath :: "world \<Rightarrow> js_error + string" where
  \<open>secretsPath w =
     (case js_or (env_var w ''HOME'') (env_var w ''USERPROFILE'') of
        JStr home \<Rightarrow> Inr (path_join w home ''.local/share/amp/secrets.json'')
      | _ \<Rightarrow> Inl (TypeError ''The "path" argument must be of type string. Received undefined''))\<close>

definition getApiKey :: "world \<Rightarrow> js_error + jsval" where
  "getApiKey w =
     (case secretsPath w of
        Inl e \<Rightarrow> Inl e
      | Inr p \<Rightarrow>
          (case readFileSync w p of
             Inl e \<Rightarrow> Inr (env_var w ''AMP_API_KEY'')
           | Inr text \<Rightarrow>
               (case JSON_parse w text of
                  None \<Rightarrow> Inr (env_var w ''AMP_API_KEY'')
                | Some secrets \<Rightarrow>
                    (case member_access secrets ''apiKey@https://ampcode.com/'' of
                       Inl e \<Rightarrow> Inr (env_var w ''AMP_API_KEY'')
                     | Inr qualified \<Rightarrow>
                         Inr (js_or qualified
                               (js_or (get_prop secrets ''apiKey'')
                                      (env_var w ''AMP_API_KEY'')))))))"

text \<open>
  The secrets object as the \<^verbatim>\<open>try\<close> of \<^verbatim>\<open>getApiKey\<close> gets to use it: \<open>None\<close> when reading or
  parsing the file throws, or when the first property read throws because the file holds
  \<^verbatim>\<open>null\<close>.
\<close>

definition readable_secrets :: "world \<Rightarrow> string \<Rightarrow> jsval option" where
  "readable_secrets w p =
     (case readFileSync w p of
        Inl e \<Rightarrow> None
      | Inr text \<Rightarrow>
          (case JSON_parse w text of
             None \<Rightarrow> None
           | Some secrets \<Rightarrow> if secrets = JNull \<or> secrets = JUndefined then None else Some secrets))"

section \<open>The remote-call adapter\<close>

text \<open>
  The \<^verbatim>\<open>end\<close> handler of the response (lines 77-88). Everything between \<^verbatim>\<open>try\<close> and
  \<^verbatim>\<open>catch\<close> that throws (the parse, \<^verbatim>\<open>parsed.ok\<close> on \<^verbatim>\<open>null\<close>, the string conversion inside
  \<^verbatim>\<open>new Error(...)\<close>) rejects with the invalid-JSON error.
\<close>

definition on_end :: "world \<Rightarrow> string \<Rightarrow> js_error + jsval" where
  "on_end w data =
     (case JSON_parse w data of
        None \<Rightarrow> Inl (Error ''Invalid JSON response from API'')
      | Some parsed \<Rightarrow>
          (case member_access parsed ''ok'' of
             Inl e \<Rightarrow> Inl (Error ''Invalid JSON response from API'')
           | Inr ok \<Rightarrow>
               if \<not> is_truthy ok then
                 (case ToString w (js_or (optional_access (get_prop parsed ''error'') ''message'')
                                         (JStr ''API request failed'')) of
                    None \<Rightarrow> Inl (Error ''Invalid JSON response from API'')
                  | Some m \<Rightarrow> Inl (Error m))
               else Inr parsed))"

text \<open>
  \<^verbatim>\<open>ampApiRequest\<close> (lines 49-95) returns the settled promise (\<open>Inl\<close>: rejected) and the
  list of HTTPS exchanges it started. \<^verbatim>\<open>Buffer.byteLength\<close> is the length in bytes.
\<close>

definition request_options :: "string \<Rightarrow> string \<Rightarrow> string \<Rightarrow> remote_call" where
  "request_options method body key =
     \<lparr> hostname = ''ampcode.com'',
       port = 443,
       path = ''/api/internal?'' @ method,
       http_method = ''POST'',
       headers =
         [(''Content-Type'', JStr ''application/json''),
          (''Content-Length'', JNum (Fin (of_nat (length body)))),
          (''Authorization'', JStr (''Bearer '' @ key)),
          (''X-Amp-Client-Application'', JStr ''AmpTaskViewer''),
          (''X-Amp-Client-Type'', JStr ''web''),
          (''X-Amp-Client-Bundle'', JStr ''amp-task-management'')],
       written = body \<rparr>"

definition ampApiRequest ::
  "world \<Rightarrow> string \<Rightarrow> (string \<times> jsval) list \<Rightarrow> (js_error + jsval) \<times> remote_call list" where
  "ampApiRequest w method params =
     (case getApiKey w of
        Inl e \<Rightarrow> (Inl e, [])
      | Inr apiKey \<Rightarrow>
          if \<not> is_truthy apiKey then
            (Inl (Error ''No API key found. Please ensure ~/.local/share/amp/secrets.json exists''), [])
          else
            (let body = JSON_stringify w (JObj [(''method'', JStr method), (''params'', JObj params)])
             in case ToString w apiKey of
                  None \<Rightarrow> (Inl (TypeError ''Cannot convert object to primitive value''), [])
                | Some key \<Rightarrow>
                    (let call = request_options method body key
                     in case https_request w call of
                          Inl e \<Rightarrow> (Inl e, [call])
                        | Inr data \<Rightarrow> (on_end w data, [call]))))"

section \<open>The local request and response\<close>

text \<open>
  A request as the handler sees it after line 148: the verb, the path and the query of the
  parsed URL (the first value of a key is the one \<^verbatim>\<open>searchParams.get\<close> returns), and what
  reading the body stream ends in (its \<^verbatim>\<open>error\<close> event, or the concatenated chunks).
\<close>

record request =
  req_method :: string
  req_pathname :: string
  req_query :: "(string \<times> string) list"
  req_body :: "js_error + string"

record response =
  status_code :: nat
  res_headers :: "(string \<times> string) list"
  res_body :: string

definition cors_headers :: "(string \<times> string) list" where
  "cors_headers =
     [(''Access-Control-Allow-Origin'', ''*''),
      (''Access-Control-Allow-Methods'', ''GET, POST, PUT, DELETE, OPTIONS''),
      (''Access-Control-Allow-Headers'', ''Content-Type, Authorization'')]"

text \<open>\<^verbatim>\<open>sendJson\<close> (lines 130-133).\<close>

definition sendJson :: "world \<Rightarrow> jsval \<Rightarrow> nat \<Rightarrow> response" where
  "sendJson w data status =
     \<lparr> status_code = status,
       res_headers = cors_headers @ [(''Content-Type'', ''application/json'')],
       res_body = JSON_stringify w data \<rparr>"

text \<open>\<^verbatim>\<open>parseBody\<close> (lines 98-111).\<close>

definition parseBody :: "world \<Rightarrow> request \<Rightarrow> js_error + jsval" where
  "parseBody w req =
     (case req_body req of
        Inl e \<Rightarrow> Inl e
      | Inr body \<Rightarrow>
          if body = [] then Inr (JObj [])
          else (case JSON_parse w body of
                  None \<Rightarrow> Inl (Error ''Invalid JSON in request body'')
                | Some v \<Rightarrow> Inr v))"

text \<open>\<^verbatim>\<open>url.searchParams.get(k)\<close>: the first value of the key, or \<^verbatim>\<open>null\<close>.\<close>

definition searchParams_get :: "(string \<times> string) list \<Rightarrow> string \<Rightarrow> jsval" where
  "searchParams_get q k = (case map_of q k of None \<Rightarrow> JNull | Some s \<Rightarrow> JStr s)"

section \<open>Building the remote parameters\<close>

text \<open>
  \<^verbatim>\<open>parseInt(string)\<close> with no radix, after ECMAScript: leading white space is skipped
  (given here by its UTF-8 encodings), then an optional sign, then an optional \<^verbatim>\<open>0x\<close> that
  selects radix 16, then the longest run of digits; no digit gives \<^verbatim>\<open>NaN\<close>. The result is
  kept as the exact integer: the rounding of integers beyond \<open>2^53\<close> to the nearest double
  (and to \<^verbatim>\<open>Infinity\<close>) is not modelled; it changes neither whether the result is \<^verbatim>\<open>NaN\<close>
  nor whether it is zero.
\<close>

definition white_space :: "string list" where
  "white_space =
     [[CHR 0x09], [CHR 0x0A], [CHR 0x0B], [CHR 0x0C], [CHR 0x0D], [CHR 0x20],
      [CHR 0xC2, CHR 0xA0],
      [CHR 0xE1, CHR 0x9A, CHR 0x80],
      [CHR 0xE2, CHR 0x80, CHR 0x80], [CHR 0xE2, CHR 0x80, CHR 0x81],
      [CHR 0xE2, CHR 0x80, CHR 0x82], [CHR 0xE2, CHR 0x80, CHR 0x83],
      [CHR 0xE2, CHR 0x80, CHR 0x84], [CHR 0xE2, CHR 0x80, CHR 0x85],
      [CHR 0xE2, CHR 0x80, CHR 0x86], [CHR 0xE2, CHR 0x80, CHR 0x87],
      [CHR 0xE2, CHR 0x80, CHR 0x88], [CHR 0xE2, CHR 0x80, CHR 0x89],
      [CHR 0xE2, CHR 0x80, CHR 0x8A],
      [CHR 0xE2, CHR 0x80, CHR 0xA8], [CHR 0xE2, CHR 0x80, CHR 0xA9],
      [CHR 0xE2, CHR 0x80, CHR 0xAF],
      [CHR 0xE2, CHR 0x81, CHR 0x9F],
      [CHR 0xE3, CHR 0x80, CHR 0x80],
      [CHR 0xEF, CHR 0xBB, CHR 0xBF]]"

fun trim_start :: "string \<Rightarrow> string" where
  "trim_start [] = []"
| "trim_start (c # s) =
     (case find (\<lambda>t. take (length t) (c # s) = t) white_space of
        None \<Rightarrow> c # s
      | Some t \<Rightarrow> trim_start (drop (length t - 1) s))"

definition digit_value :: "char \<Rightarrow> nat option" where
  "digit_value =
     map_of
       [(CHR ''0'', 0), (CHR ''1'', 1), (CHR ''2'', 2), (CHR ''3'', 3), (CHR ''4'', 4),
        (CHR ''5'', 5), (CHR ''6'', 6), (CHR ''7'', 7), (CHR ''8'', 8), (CHR ''9'', 9),
        (CHR ''a'', 10), (CHR ''b'', 11), (CHR ''c'', 12), (CHR ''d'', 13), (CHR ''e'', 14),
        (CHR ''f'', 15),
        (CHR ''A'', 10), (CHR ''B'', 11), (CHR ''C'', 12), (CHR ''D'', 13), (CHR ''E'', 14),
        (CHR ''F'', 15)]"

definition is_digit :: "nat \<Rightarrow> char \<Rightarrow> bool" where
  "is_digit R c = (case digit_value c of Some d \<Rightarrow> d < R | None \<Rightarrow> False)"

definition digits_value :: "nat \<Rightarrow> string \<Rightarrow> nat" where
  "digits_value R Z =
     foldl (\<lambda>a c. a * R + (case digit_value c of Some d \<Rightarrow> d | None \<Rightarrow> 0)) 0 Z"

definition parseInt :: "string \<Rightarrow> jsnum" where
  "parseInt inputString =
     (let S = trim_start inputString;
          sign = (if take 1 S = ''-'' then - 1 else (1 :: int));
          S = (if take 1 S = ''+'' \<or> take 1 S = ''-'' then drop 1 S else S);
          hex = (take 2 S = ''0x'' \<or> take 2 S = ''0X'');
          R = (if hex then 16 else 10);
          S = (if hex then drop 2 S else S);
          Z = takeWhile (is_digit R) S
      in if Z = [] then NaN else Fin (of_int (sign * int (digits_value R Z))))"

text \<open>
  \<^verbatim>\<open>parseInt\<close> applied to the result of \<^verbatim>\<open>searchParams.get\<close>: \<^verbatim>\<open>null\<close> is first converted to
  the string \<^verbatim>\<open>null\<close>.
\<close>

definition parseInt_value :: "jsval \<Rightarrow> jsnum" where
  "parseInt_value v = parseInt (case v of JStr s \<Rightarrow> s | _ \<Rightarrow> ''null'')"

text \<open>
  The parameters of \<^verbatim>\<open>listTasks\<close> (lines 158-166). \<^verbatim>\<open>params.k = v\<close> on an object replaces
  the value of an existing key in place and appends a new key.
\<close>

definition listTasks_params :: "(string \<times> string) list \<Rightarrow> (string \<times> jsval) list" where
  "listTasks_params q =
     (let limit = js_or (JNum (parseInt_value (searchParams_get q ''limit''))) (JNum (Fin 100));
          status = searchParams_get q ''status'';
          repoURL = searchParams_get q ''repoURL'';
          ready = (searchParams_get q ''ready'' = JStr ''true'');
          params = [(''limit'', limit)];
          params = (if is_truthy status then AList.update ''status'' status params else params);
          params = (if is_truthy repoURL then AList.update ''repoURL'' repoURL params else params);
          params = (if ready then AList.update ''ready'' (JBool True) params else params)
      in params)"

text \<open>
  \<^verbatim>\<open>Object.keys(params).forEach(key => params[key] === undefined && delete params[key])\<close>
  (lines 193-195 and 216-218): the keys are listed once, then visited in order.
\<close>

definition remove_undefined :: "(string \<times> jsval) list \<Rightarrow> (string \<times> jsval) list" where
  "remove_undefined params =
     foldl (\<lambda>ps key. if get_prop (JObj ps) key = JUndefined then AList.delete key ps else ps)
       params (map fst params)"

text \<open>
  The parameters of \<^verbatim>\<open>createTask\<close> (lines 183-195) and of \<^verbatim>\<open>updateTask\<close> (lines 205-218).
  \<^verbatim>\<open>body.title\<close> is the first property read and throws when the body is \<^verbatim>\<open>null\<close>; after
  it no other read can throw.
\<close>

definition createTask_params :: "jsval \<Rightarrow> js_error + (string \<times> jsval) list" where
  "createTask_params body =
     (case member_access body ''title'' of
        Inl e \<Rightarrow> Inl e
      | Inr title \<Rightarrow>
          Inr (remove_undefined
            [(''title'', title),
             (''description'', get_prop body ''description''),
             (''status'', js_or (get_prop body ''status'') (JStr ''open'')),
             (''repoURL'', get_prop body ''repoURL''),
             (''dependsOn'', get_prop body ''dependsOn''),
             (''parentID'', get_prop body ''parentID'')]))"

definition updateTask_params :: "jsval \<Rightarrow> jsval \<Rightarrow> js_error + (string \<times> jsval) list" where
  "updateTask_params taskId body =
     (case member_access body ''title'' of
        Inl e \<Rightarrow> Inl e
      | Inr title \<Rightarrow>
          Inr (remove_undefined
            [(''taskID'', taskId),
             (''title'', title),
             (''description'', get_prop body ''description''),
             (''status'', get_prop body ''status''),
             (''repoURL'', get_prop body ''repoURL''),
             (''dependsOn'', get_prop body ''dependsOn''),
             (''parentID'', get_prop body ''parentID'')]))"

section \<open>The request handler\<close>

text \<open>\<^verbatim>\<open>s.split('/')\<close>; \<^verbatim>\<open>xs[i]\<close> on an array of strings, \<^verbatim>\<open>undefined\<close> out of range.\<close>

fun split_on :: "char \<Rightarrow> string \<Rightarrow> string list" where
  "split_on sep [] = [[]]"
| "split_on sep (c # s) =
     (if c = sep then [] # split_on sep s
      else (case split_on sep s of
              [] \<Rightarrow> [[c]]
            | part # parts \<Rightarrow> (c # part) # parts))"

definition element :: "string list \<Rightarrow> nat \<Rightarrow> jsval" where
  "element xs i = (if i < length xs then JStr (xs ! i) else JUndefined)"

text \<open>
  A settled remote call followed by \<^verbatim>\<open>sendJson(res, data, status)\<close>: a rejection passes on
  to the \<^verbatim>\<open>catch\<close>.
\<close>

definition reply ::
  "world \<Rightarrow> nat \<Rightarrow> (js_error + jsval) \<times> remote_call list
     \<Rightarrow> (js_error + response) \<times> remote_call list" where
  "reply w status r =
     (case r of
        (Inl e, calls) \<Rightarrow> (Inl e, calls)
      | (Inr data, calls) \<Rightarrow> (Inr (sendJson w data status), calls))"

text \<open>
  The block under \<^verbatim>\<open>/api/tasks\<close> (lines 153-231). \<open>None\<close>: no branch returned, and control
  falls through to the health check and the static files.
\<close>

definition tasks_routes ::
  "world \<Rightarrow> request \<Rightarrow> jsval \<Rightarrow> ((js_error + response) \<times> remote_call list) option" where
  "tasks_routes w req taskId =
     (if req_method req = ''GET'' \<and> \<not> is_truthy taskId then
        Some (reply w 200 (ampApiRequest w ''listTasks'' (listTasks_params (req_query req))))
      else if req_method req = ''GET'' \<and> is_truthy taskId then
        Some (reply w 200 (ampApiRequest w ''getTask'' [(''taskID'', taskId)]))
      else if req_method req = ''POST'' \<and> \<not> is_truthy taskId then
        Some (case parseBody w req of
                Inl e \<Rightarrow> (Inl e, [])
              | Inr body \<Rightarrow>
                  (case createTask_params body of
                     Inl e \<Rightarrow> (Inl e, [])
                   | Inr params \<Rightarrow> reply w 201 (ampApiRequest w ''createTask'' params)))
      else if req_method req = ''PUT'' \<and> is_truthy taskId then
        Some (case parseBody w req of
                Inl e \<Rightarrow> (Inl e, [])
              | Inr body \<Rightarrow>
                  (case updateTask_params taskId body of
                     Inl e \<Rightarrow> (Inl e, [])
                   | Inr params \<Rightarrow> reply w 200 (ampApiRequest w ''updateTask'' params)))
      else if req_method req = ''DELETE'' \<and> is_truthy taskId then
        Some (reply w 200 (ampApiRequest w ''deleteTask'' [(''taskID'', taskId)]))
      else None)"

text \<open>
  \<^verbatim>\<open>getMimeType\<close> (lines 114-127). \<^verbatim>\<open>toLowerCase\<close> is applied to ASCII letters only: no
  other character lower-cases into a letter of the table's keys.
\<close>

definition toLowerCase :: "string \<Rightarrow> string" where
  "toLowerCase s =
     map (\<lambda>c. if 65 \<le> (of_char c :: nat) \<and> (of_char c :: nat) \<le> 90
               then char_of ((of_char c :: nat) + 32) else c) s"

definition getMimeType :: "world \<Rightarrow> string \<Rightarrow> string" where
  "getMimeType w filePath =
     (case map_of
        [(''.html'', ''text/html''),
         (''.css'', ''text/css''),
         (''.js'', ''application/javascript''),
         (''.json'', ''application/json''),
         (''.png'', ''image/png''),
         (''.svg'', ''image/svg+xml''),
         (''.ico'', ''image/x-icon''),
         (''.md'', ''text/markdown'')]
        (toLowerCase (path_extname w filePath)) of
        Some t \<Rightarrow> t
      | None \<Rightarrow> ''text/plain'')"

text \<open>The static files (lines 240-253).\<close>

definition static_file :: "world \<Rightarrow> request \<Rightarrow> js_error + response" where
  "static_file w req =
     (let filePath = path_join w (dirname w)
            (if req_pathname req = ''/'' then ''index.html'' else req_pathname req)
      in case readFileSync w filePath of
           Inr content \<Rightarrow>
             Inr \<lparr> status_code = 200,
                   res_headers = cors_headers @ [(''Content-Type'', getMimeType w filePath)],
                   res_body = content \<rparr>
         | Inl e \<Rightarrow>
             if code e = Some ''ENOENT'' then
               Inr \<lparr> status_code = 404,
                     res_headers = cors_headers @ [(''Content-Type'', ''text/plain'')],
                     res_body = ''Not Found'' \<rparr>
             else Inl e)"

text \<open>
  \<^verbatim>\<open>pathParts\<close> (line 149), and the body of the \<^verbatim>\<open>try\<close> (lines 151-253) with the HTTPS
  exchanges it started.
\<close>

definition pathParts :: "request \<Rightarrow> string list" where
  "pathParts req = filter (\<lambda>part. part \<noteq> []) (split_on CHR ''/'' (req_pathname req))"

definition try_block :: "world \<Rightarrow> request \<Rightarrow> (js_error + response) \<times> remote_call list" where
  "try_block w req =
     (case (if element (pathParts req) 0 = JStr ''api'' \<and> element (pathParts req) 1 = JStr ''tasks''
            then tasks_routes w req (element (pathParts req) 2) else None) of
        Some r \<Rightarrow> r
      | None \<Rightarrow>
          if req_pathname req = ''/api/health'' then
            (Inr (sendJson w (JObj [(''ok'', JBool True), (''timestamp'', JStr (now_iso w))]) 200), [])
          else (static_file w req, []))"

text \<open>
  The handler passed to \<^verbatim>\<open>http.createServer\<close> (lines 136-259): the response written and
  the HTTPS exchanges started. What \<^verbatim>\<open>console.error\<close> prints is not part of the model.
\<close>

definition server :: "world \<Rightarrow> request \<Rightarrow> response \<times> remote_call list" where
  "server w req =
     (if req_method req = ''OPTIONS'' then
        (\<lparr> status_code = 204, res_headers = cors_headers, res_body = [] \<rparr>, [])
      else (case try_block w req of
              (Inr res, calls) \<Rightarrow> (res, calls)
            | (Inl error, calls) \<Rightarrow>
                (sendJson w (JObj [(''ok'', JBool False), (''error'', JStr (message error))]) 500,
                 calls)))"

section \<open>Example worlds and requests\<close>

text \<open>
  Concrete surroundings on which the theorems below are instantiated. The platform
  functions are tables over the texts and values the examples reach.
\<close>

definition example_parse :: "string \<Rightarrow> jsval option" where
  \<open>example_parse =
     map_of
       [(''{"apiKey":"secret"}'', JObj [(''apiKey'', JStr ''secret'')]),
        (''{"apiKey@https://ampcode.com/":"","apiKey":"generic"}'',
           JObj [(''apiKey@https://ampcode.com/'', JStr []), (''apiKey'', JStr ''generic'')]),
        (''{"title":"t"}'', JObj [(''title'', JStr ''t'')]),
        (''{"ok":true,"data":{"id":"1"}}'',
           JObj [(''ok'', JBool True), (''data'', JObj [(''id'', JStr ''1'')])]),
        (''{"ok":false,"error":{"message":"x"}}'',
           JObj [(''ok'', JBool False), (''error'', JObj [(''message'', JStr ''x'')])]),
        (''{"ok":false,"error":{"message":""}}'',
           JObj [(''ok'', JBool False), (''error'', JObj [(''message'', JStr [])])])]\<close>

definition example_stringify :: "jsval \<Rightarrow> string" where
  \<open>example_stringify v =
     (case map_of
        [(JObj [(''method'', JStr ''createTask''),
                (''params'', JObj [(''title'', JStr ''t''), (''status'', JStr ''open'')])],
            ''{"method":"createTask","params":{"title":"t","status":"open"}}''),
         (JObj [(''method'', JStr ''listTasks''),
                (''params'', JObj [(''limit'', JNum (Fin 100))])],
            ''{"method":"listTasks","params":{"limit":100}}''),
         (JObj [(''ok'', JBool True), (''data'', JObj [(''id'', JStr ''1'')])],
            ''{"ok":true,"data":{"id":"1"}}''),
         (JObj [(''ok'', JBool False),
                (''error'', JStr ''No API key found. Please ensure ~/.local/share/amp/secrets.json exists'')],
            ''{"ok":false,"error":"No API key found. Please ensure ~/.local/share/amp/secrets.json exists"}''),
         (JObj [(''ok'', JBool False), (''error'', JStr ''Invalid JSON in request body'')],
            ''{"ok":false,"error":"Invalid JSON in request body"}'')] v of
        Some text \<Rightarrow> text
      | None \<Rightarrow> ''null'')\<close>

text \<open>
  A developer's machine: \<^verbatim>\<open>HOME\<close> is set, the secrets file holds the generic key, no
  override is set, and the remote answers every call with a success envelope.
\<close>

definition example_world :: world where
  \<open>example_world =
     \<lparr> process_env = map_of [(''HOME'', ''/home/dev'')],
       path_join = (\<lambda>a b. a @ ''/'' @ b),
       path_extname = (\<lambda>p. []),
       readFileSync =
         (\<lambda>p. if p = ''/home/dev/.local/share/amp/secrets.json'' then Inr ''{"apiKey":"secret"}''
              else Inl (SystemError ''ENOENT'' ''ENOENT: no such file or directory'')),
       JSON_parse = example_parse,
       JSON_stringify = example_stringify,
       ToString_other = (\<lambda>v. Some ''[object Object]''),
       https_request = (\<lambda>call. Inr ''{"ok":true,"data":{"id":"1"}}''),
       dirname = ''/srv/amp-task-management'',
       now_iso = ''2024-01-01T00:00:00.000Z'' \<rparr>\<close>

text \<open>The same machine without the secrets file.\<close>

definition no_credential_world :: world where
  "no_credential_world =
     example_world
       \<lparr> readFileSync := (\<lambda>p. Inl (SystemError ''ENOENT'' ''ENOENT: no such file or directory'')) \<rparr>"

text \<open>The same machine with a secrets file whose service-qualified key is the empty string.\<close>

definition empty_key_world :: world where
  \<open>empty_key_world =
     example_world
       \<lparr> readFileSync := (\<lambda>p. Inr ''{"apiKey@https://ampcode.com/":"","apiKey":"generic"}'') \<rparr>\<close>


definition post_title :: request where
  \<open>post_title =
     \<lparr> req_method = ''POST'', req_pathname = ''/api/tasks'', req_query = [],
       req_body = Inr ''{"title":"t"}'' \<rparr>\<close>

definition post_broken :: request where
  "post_broken =
     \<lparr> req_method = ''POST'', req_pathname = ''/api/tasks'', req_query = [],
       req_body = Inr ''{'' \<rparr>"

definition delete_85 :: request where
  "delete_85 =
     \<lparr> req_method = ''DELETE'', req_pathname = ''/api/tasks/85'', req_query = [], req_body = Inr [] \<rparr>"

text \<open>The same machine with a remote that reports a failure, with and without a message.\<close>

definition failing_remote_world :: world where
  \<open>failing_remote_world =
     example_world \<lparr> https_request := (\<lambda>call. Inr ''{"ok":false,"error":{"message":"x"}}'') \<rparr>\<close>

definition empty_message_world :: world where
  \<open>empty_message_world =
     example_world \<lparr> https_request := (\<lambda>call. Inr ''{"ok":false,"error":{"message":""}}'') \<rparr>\<close>

section \<open>Facts about the parameter builders\<close>
















lemma createTask_params_title:
  "createTask_params (JObj [(''title'', JStr ''t'')]) =
     Inr [(''title'', JStr ''t''), (''status'', JStr ''open'')]"
  by (simp add: createTask_params_def member_access_def remove_undefined_def js_or_def)






section \<open>Absent fields are not sent\<close>





section \<open>The list parameters\<close>








section \<open>Null fields\<close>




section \<open>Facts about the adapter and the handler\<close>

lemma getApiKey_resolved:
  assumes "secretsPath w = Inr p"
  shows "getApiKey w =
           Inr (case readable_secrets w p of
                  None \<Rightarrow> env_var w ''AMP_API_KEY''
                | Some secrets \<Rightarrow>
                    if is_truthy (get_prop secrets ''apiKey@https://ampcode.com/'')
                    then get_prop secrets ''apiKey@https://ampcode.com/''
                    else if is_truthy (get_prop secrets ''apiKey'') then get_prop secrets ''apiKey''
                    else env_var w ''AMP_API_KEY'')"
  using assms
  by (simp add: getApiKey_def readable_secrets_def member_access_def js_or_def
      split: sum.splits option.splits)

lemma ampApiRequest_no_key:
  "getApiKey w = Inr apiKey \<Longrightarrow> \<not> is_truthy apiKey \<Longrightarrow>
   ampApiRequest w method params =
     (Inl (Error ''No API key found. Please ensure ~/.local/share/amp/secrets.json exists''), [])"
  by (simp add: ampApiRequest_def)

lemma ampApiRequest_with_key:
  "getApiKey w = Inr apiKey \<Longrightarrow> is_truthy apiKey \<Longrightarrow> ToString w apiKey = Some key \<Longrightarrow>
   ampApiRequest w method params =
     (case https_request w
             (request_options method
                (JSON_stringify w (JObj [(''method'', JStr method), (''params'', JObj params)])) key) of
        Inl e \<Rightarrow> Inl e
      | Inr data \<Rightarrow> on_end w data,
      [request_options method
         (JSON_stringify w (JObj [(''method'', JStr method), (''params'', JObj params)])) key])"
  by (simp add: ampApiRequest_def Let_def split: sum.splits)

lemma ampApiRequest_missing_key_iff:
  "ampApiRequest w method params =
     (Inl (Error ''No API key found. Please ensure ~/.local/share/amp/secrets.json exists''), [])
   \<longleftrightarrow> (\<exists>apiKey. getApiKey w = Inr apiKey \<and> \<not> is_truthy apiKey)"
proof
  assume a: "ampApiRequest w method params =
     (Inl (Error ''No API key found. Please ensure ~/.local/share/amp/secrets.json exists''), [])"
  show "\<exists>apiKey. getApiKey w = Inr apiKey \<and> \<not> is_truthy apiKey"
  proof (cases "getApiKey w")
    case (Inl e)
    then have "e = Error ''No API key found. Please ensure ~/.local/share/amp/secrets.json exists''"
      using a by (simp add: ampApiRequest_def)
    moreover from Inl have "\<exists>m. e = TypeError m"
      by (auto simp: getApiKey_def secretsPath_def split: sum.splits jsval.splits option.splits)
    ultimately show ?thesis by auto
  next
    case (Inr apiKey)
    then show ?thesis using a
      by (auto simp: ampApiRequest_def Let_def split: if_splits option.splits sum.splits)
  qed
next
  assume "\<exists>apiKey. getApiKey w = Inr apiKey \<and> \<not> is_truthy apiKey"
  then show "ampApiRequest w method params =
     (Inl (Error ''No API key found. Please ensure ~/.local/share/amp/secrets.json exists''), [])"
    by (auto simp: ampApiRequest_no_key)
qed

lemma on_end_not_ok:
  assumes "JSON_parse w data = Some parsed" and "get_prop parsed ''ok'' = JBool False"
  shows "on_end w data =
           (case ToString w (js_or (optional_access (get_prop parsed ''error'') ''message'')
                                   (JStr ''API request failed'')) of
              None \<Rightarrow> Inl (Error ''Invalid JSON response from API'')
            | Some m \<Rightarrow> Inl (Error m))"
proof -
  from assms(2) have "parsed \<noteq> JUndefined" and "parsed \<noteq> JNull" by auto
  with assms show ?thesis by (simp add: on_end_def member_access_def)
qed

lemma secretsPath_example: "secretsPath example_world = Inr ''/home/dev/.local/share/amp/secrets.json''"
  by (simp add: secretsPath_def example_world_def env_var_def js_or_def)

lemma getApiKey_example: "getApiKey example_world = Inr (JStr ''secret'')"
  by (simp add: getApiKey_def secretsPath_example)
     (simp add: example_world_def example_parse_def member_access_def js_or_def env_var_def)


lemma readable_secrets_example:
  "readable_secrets example_world ''/home/dev/.local/share/amp/secrets.json'' =
     Some (JObj [(''apiKey'', JStr ''secret'')])"
  by (simp add: readable_secrets_def example_world_def example_parse_def)

lemma getApiKey_https_request_update [simp]:
  "getApiKey (w\<lparr>https_request := f\<rparr>) = getApiKey w"
  by (simp add: getApiKey_def secretsPath_def env_var_def
      cong del: sum.case_cong_weak option.case_cong_weak jsval.case_cong_weak)

lemma on_end_invalid_json:
  "JSON_parse w data = None \<Longrightarrow> on_end w data = Inl (Error ''Invalid JSON response from API'')"
  by (simp add: on_end_def)

lemma on_end_success:
  "JSON_parse w data = Some envelope \<Longrightarrow> is_truthy (get_prop envelope ''ok'') \<Longrightarrow>
   on_end w data = Inr envelope"
  by (cases envelope) (simp_all add: on_end_def member_access_def)

lemma parseBody_invalid:
  "req_body req = Inr raw \<Longrightarrow> raw \<noteq> [] \<Longrightarrow> JSON_parse w raw = None \<Longrightarrow>
   parseBody w req = Inl (Error ''Invalid JSON in request body'')"
  by (simp add: parseBody_def)

lemma ampApiRequest_transport_error:
  "getApiKey w = Inr apiKey \<Longrightarrow> is_truthy apiKey \<Longrightarrow> ToString w apiKey = Some key \<Longrightarrow>
   https_request w
     (request_options method
        (JSON_stringify w (JObj [(''method'', JStr method), (''params'', JObj params)])) key) = Inl e \<Longrightarrow>
   fst (ampApiRequest w method params) = Inl e"
  by (simp add: ampApiRequest_with_key)

lemma getApiKey_failing_remote: "getApiKey failing_remote_world = Inr (JStr ''secret'')"
  by (simp add: failing_remote_world_def getApiKey_example)

lemma getApiKey_empty_message: "getApiKey empty_message_world = Inr (JStr ''secret'')"
  by (simp add: empty_message_world_def getApiKey_example)

lemma getApiKey_no_credential: "getApiKey no_credential_world = Inr JUndefined"
  by (simp add: getApiKey_def secretsPath_def no_credential_world_def example_world_def
      env_var_def js_or_def)

lemma pathParts_tasks: "req_pathname req = ''/api/tasks'' \<Longrightarrow> pathParts req = [''api'', ''tasks'']"
  by (simp add: pathParts_def)

lemma pathParts_tasks_85:
  "req_pathname req = ''/api/tasks/85'' \<Longrightarrow> pathParts req = [''api'', ''tasks'', ''85'']"
  by (simp add: pathParts_def)


lemma getApiKey_without_home:
  "process_env w ''HOME'' = None \<Longrightarrow> process_env w ''USERPROFILE'' = None \<Longrightarrow>
   \<exists>m. getApiKey w = Inl (TypeError m)"
  by (simp add: getApiKey_def secretsPath_def env_var_def js_or_def)

section \<open>The resolved credential\<close>

text \<open>
  C5, as amended. When the path of the secrets file can be computed (\<^verbatim>\<open>HOME\<close> or
  \<^verbatim>\<open>USERPROFILE\<close> is set), credential resolution returns the service-qualified key of the
  secrets file when its value is truthy, otherwise the generic key when its value is truthy,
  otherwise the environment variable: the environment variable is what is returned exactly
  when reading or parsing the file throws or neither key has a truthy value. The adapter
  rejects with the missing-key error, without a remote call, exactly when none of the three
  has a truthy value.
\<close>

theorem credential_resolution:
  assumes "secretsPath w = Inr p"
  shows "getApiKey w =
           Inr (case readable_secrets w p of
                  None \<Rightarrow> env_var w ''AMP_API_KEY''
                | Some secrets \<Rightarrow>
                    if is_truthy (get_prop secrets ''apiKey@https://ampcode.com/'')
                    then get_prop secrets ''apiKey@https://ampcode.com/''
                    else if is_truthy (get_prop secrets ''apiKey'') then get_prop secrets ''apiKey''
                    else env_var w ''AMP_API_KEY'')
         \<and> ((ampApiRequest w method params =
               (Inl (Error ''No API key found. Please ensure ~/.local/share/amp/secrets.json exists''), []))
              = (\<not> is_truthy (env_var w ''AMP_API_KEY'') \<and>
                 (case readable_secrets w p of
                    None \<Rightarrow> True
                  | Some secrets \<Rightarrow>
                      \<not> is_truthy (get_prop secrets ''apiKey@https://ampcode.com/'') \<and>
                      \<not> is_truthy (get_prop secrets ''apiKey''))))"
proof -
  note r = getApiKey_resolved[OF assms]
  show ?thesis
    unfolding ampApiRequest_missing_key_iff r
    by (auto split: option.splits)
qed

theorem credential_resolution_witness:
  "secretsPath example_world = Inr ''/home/dev/.local/share/amp/secrets.json''
   \<and> readable_secrets example_world ''/home/dev/.local/share/amp/secrets.json'' =
         Some (JObj [(''apiKey'', JStr ''secret'')])
   \<and> getApiKey example_world = Inr (JStr ''secret'')"
  using credential_resolution[OF secretsPath_example, of "''listTasks''" "[]"]
        secretsPath_example readable_secrets_example
  by simp

text \<open>
  C5 as stated fails on a secrets file whose service-qualified key is present with the
  empty string as value: the generic key is returned, not the service-qualified one.
\<close>

theorem empty_qualified_key_counterexample:
  \<open>readable_secrets empty_key_world ''/home/dev/.local/share/amp/secrets.json'' =
         Some (JObj [(''apiKey@https://ampcode.com/'', JStr []), (''apiKey'', JStr ''generic'')])
   \<and> get_prop (JObj [(''apiKey@https://ampcode.com/'', JStr []), (''apiKey'', JStr ''generic'')])
         ''apiKey@https://ampcode.com/'' = JStr []
   \<and> getApiKey empty_key_world = Inr (JStr ''generic'')\<close>
  by (simp add: readable_secrets_def getApiKey_def secretsPath_def empty_key_world_def
      example_world_def example_parse_def member_access_def js_or_def env_var_def)


section \<open>Failures reported by the remote\<close>

text \<open>
  C3, as amended. When the remote answers a call with a body that parses as JSON and whose
  \<^verbatim>\<open>ok\<close> is \<^verbatim>\<open>false\<close>, the adapter rejects, and never resolves with the envelope: with the
  envelope's \<^verbatim>\<open>error.message\<close> as message when that is a non-empty string, and with the fixed
  message "API request failed" when it is absent or falsy (the empty string included).
\<close>

theorem remote_failure_rejected:
  assumes "getApiKey w = Inr apiKey" and "is_truthy apiKey" and "ToString w apiKey = Some key"
    and "https_request w
           (request_options method
              (JSON_stringify w (JObj [(''method'', JStr method), (''params'', JObj params)])) key)
         = Inr data"
    and "JSON_parse w data = Some parsed" and "get_prop parsed ''ok'' = JBool False"
  shows "(\<exists>m. fst (ampApiRequest w method params) = Inl (Error m))
         \<and> (optional_access (get_prop parsed ''error'') ''message'' = JStr x \<and> x \<noteq> [] \<longrightarrow>
              fst (ampApiRequest w method params) = Inl (Error x))
         \<and> (\<not> is_truthy (optional_access (get_prop parsed ''error'') ''message'') \<longrightarrow>
              fst (ampApiRequest w method params) = Inl (Error ''API request failed''))"
proof -
  have r: "fst (ampApiRequest w method params) = on_end w data"
    using assms(1-4) by (simp add: ampApiRequest_with_key)
  note e = on_end_not_ok[OF assms(5,6)]
  show ?thesis
    unfolding r e by (auto simp: js_or_def split: option.splits)
qed

theorem remote_failure_rejected_witness:
  \<open>getApiKey failing_remote_world = Inr (JStr ''secret'')
   \<and> JSON_parse failing_remote_world ''{"ok":false,"error":{"message":"x"}}'' =
         Some (JObj [(''ok'', JBool False), (''error'', JObj [(''message'', JStr ''x'')])])
   \<and> fst (ampApiRequest failing_remote_world ''listTasks'' []) = Inl (Error ''x'')\<close>
proof -
  have p: \<open>JSON_parse failing_remote_world ''{"ok":false,"error":{"message":"x"}}'' =
         Some (JObj [(''ok'', JBool False), (''error'', JObj [(''message'', JStr ''x'')])])\<close>
    by (simp add: failing_remote_world_def example_world_def example_parse_def)
  have h: \<open>https_request failing_remote_world
           (request_options ''listTasks''
              (JSON_stringify failing_remote_world
                 (JObj [(''method'', JStr ''listTasks''), (''params'', JObj [])])) ''secret'')
         = Inr ''{"ok":false,"error":{"message":"x"}}''\<close>
    by (simp add: failing_remote_world_def)
  from remote_failure_rejected[OF getApiKey_failing_remote _ _ h p, of "''x''"]
  have "fst (ampApiRequest failing_remote_world ''listTasks'' []) = Inl (Error ''x'')"
    by (simp add: optional_access_def)
  with p getApiKey_failing_remote show ?thesis by simp
qed

text \<open>
  C3 as stated fails on the envelope \<^verbatim>\<open>{"ok":false,"error":{"message":""}}\<close>: the message is
  present, and the error carries the generic message instead of it.
\<close>

theorem empty_message_counterexample:
  \<open>JSON_parse empty_message_world ''{"ok":false,"error":{"message":""}}'' =
         Some (JObj [(''ok'', JBool False), (''error'', JObj [(''message'', JStr [])])])
   \<and> https_request empty_message_world
           (request_options ''listTasks''
              (JSON_stringify empty_message_world
                 (JObj [(''method'', JStr ''listTasks''), (''params'', JObj [])])) ''secret'')
         = Inr ''{"ok":false,"error":{"message":""}}''
   \<and> fst (ampApiRequest empty_message_world ''listTasks'' []) = Inl (Error ''API request failed'')\<close>
proof -
  have p: \<open>JSON_parse empty_message_world ''{"ok":false,"error":{"message":""}}'' =
         Some (JObj [(''ok'', JBool False), (''error'', JObj [(''message'', JStr [])])])\<close>
    by (simp add: empty_message_world_def example_world_def example_parse_def)
  have h: \<open>https_request empty_message_world
           (request_options ''listTasks''
              (JSON_stringify empty_message_world
                 (JObj [(''method'', JStr ''listTasks''), (''params'', JObj [])])) ''secret'')
         = Inr ''{"ok":false,"error":{"message":""}}''\<close>
    by (simp add: empty_message_world_def)
  have "fst (ampApiRequest empty_message_world ''listTasks'' []) = Inl (Error ''API request failed'')"
    using getApiKey_empty_message h p
    by (simp add: ampApiRequest_with_key[where key="''secret''"] on_end_not_ok optional_access_def js_or_def)
  with p h show ?thesis by simp
qed


section \<open>Errors of the route handlers\<close>



section \<open>The create round trip\<close>

text \<open>
  C2. With a resolvable credential, a POST to \<^verbatim>\<open>/api/tasks\<close> with the body
  \<^verbatim>\<open>{"title":"t"}\<close> starts exactly one remote call: a POST to \<^verbatim>\<open>ampcode.com\<close>, port 443, path
  \<^verbatim>\<open>/api/internal?createTask\<close>, with the six headers of lines 64-71, whose body is the
  serialisation of the method \<^verbatim>\<open>createTask\<close> and the parameters
  \<^verbatim>\<open>{title: "t", status: "open"}\<close>. When the remote answers it with an envelope whose \<^verbatim>\<open>ok\<close>
  is truthy, the local response has status 201 and that envelope as body.
\<close>

theorem create_round_trip:
  assumes \<open>req_method req = ''POST''\<close> and \<open>req_pathname req = ''/api/tasks''\<close>
    and \<open>req_body req = Inr ''{"title":"t"}''\<close>
    and \<open>JSON_parse w ''{"title":"t"}'' = Some (JObj [(''title'', JStr ''t'')])\<close>
    and \<open>getApiKey w = Inr apiKey\<close> and \<open>is_truthy apiKey\<close> and \<open>ToString w apiKey = Some key\<close>
  shows \<open>let payload =
               JSON_stringify w
                 (JObj [(''method'', JStr ''createTask''),
                        (''params'', JObj [(''title'', JStr ''t''), (''status'', JStr ''open'')])]);
             call =
               \<lparr> hostname = ''ampcode.com'',
                 port = 443,
                 path = ''/api/internal?createTask'',
                 http_method = ''POST'',
                 headers =
                   [(''Content-Type'', JStr ''application/json''),
                    (''Content-Length'', JNum (Fin (of_nat (length payload)))),
                    (''Authorization'', JStr (''Bearer '' @ key)),
                    (''X-Amp-Client-Application'', JStr ''AmpTaskViewer''),
                    (''X-Amp-Client-Type'', JStr ''web''),
                    (''X-Amp-Client-Bundle'', JStr ''amp-task-management'')],
                 written = payload \<rparr>
         in snd (server w req) = [call]
            \<and> (https_request w call = Inr data
                 \<and> JSON_parse w data = Some envelope \<and> is_truthy (get_prop envelope ''ok'') \<longrightarrow>
                 fst (server w req) =
                   \<lparr> status_code = 201,
                     res_headers =
                       [(''Access-Control-Allow-Origin'', ''*''),
                        (''Access-Control-Allow-Methods'', ''GET, POST, PUT, DELETE, OPTIONS''),
                        (''Access-Control-Allow-Headers'', ''Content-Type, Authorization''),
                        (''Content-Type'', ''application/json'')],
                     res_body = JSON_stringify w envelope \<rparr>)\<close>
proof -
  have pp: "pathParts req = [''api'', ''tasks'']"
    using assms(2) by (rule pathParts_tasks)
  have b: "parseBody w req = Inr (JObj [(''title'', JStr ''t'')])"
    using assms(3,4) by (simp add: parseBody_def)
  note a = ampApiRequest_with_key[OF assms(5-7), of "''createTask''"
             "[(''title'', JStr ''t''), (''status'', JStr ''open'')]"]
  have t: "try_block w req =
             reply w 201 (ampApiRequest w ''createTask''
                            [(''title'', JStr ''t''), (''status'', JStr ''open'')])"
    using assms(1)
    by (simp add: try_block_def pp element_def tasks_routes_def b createTask_params_title)
  have o: "request_options ''createTask'' body key =
             \<lparr> hostname = ''ampcode.com'',
               port = 443,
               path = ''/api/internal?createTask'',
               http_method = ''POST'',
               headers =
                 [(''Content-Type'', JStr ''application/json''),
                  (''Content-Length'', JNum (Fin (of_nat (length body)))),
                  (''Authorization'', JStr (''Bearer '' @ key)),
                  (''X-Amp-Client-Application'', JStr ''AmpTaskViewer''),
                  (''X-Amp-Client-Type'', JStr ''web''),
                  (''X-Amp-Client-Bundle'', JStr ''amp-task-management'')],
               written = body \<rparr>" for body
    by (simp add: request_options_def)
  have m: "req_method req \<noteq> ''OPTIONS''"
    using assms(1) by simp
  show ?thesis
    unfolding Let_def o[symmetric]
    using m
    by (auto simp: server_def t a reply_def sendJson_def cors_headers_def on_end_success
        split: sum.splits)
qed

theorem create_round_trip_witness:
  \<open>getApiKey example_world = Inr (JStr ''secret'')
   \<and> JSON_parse example_world ''{"title":"t"}'' = Some (JObj [(''title'', JStr ''t'')])
   \<and> snd (server example_world post_title) =
       [\<lparr> hostname = ''ampcode.com'',
          port = 443,
          path = ''/api/internal?createTask'',
          http_method = ''POST'',
          headers =
            [(''Content-Type'', JStr ''application/json''),
             (''Content-Length'', JNum (Fin 62)),
             (''Authorization'', JStr ''Bearer secret''),
             (''X-Amp-Client-Application'', JStr ''AmpTaskViewer''),
             (''X-Amp-Client-Type'', JStr ''web''),
             (''X-Amp-Client-Bundle'', JStr ''amp-task-management'')],
          written = ''{"method":"createTask","params":{"title":"t","status":"open"}}'' \<rparr>]
   \<and> fst (server example_world post_title) =
       \<lparr> status_code = 201,
         res_headers =
           [(''Access-Control-Allow-Origin'', ''*''),
            (''Access-Control-Allow-Methods'', ''GET, POST, PUT, DELETE, OPTIONS''),
            (''Access-Control-Allow-Headers'', ''Content-Type, Authorization''),
            (''Content-Type'', ''application/json'')],
         res_body = ''{"ok":true,"data":{"id":"1"}}'' \<rparr>\<close>
proof -
  have p: \<open>JSON_parse example_world ''{"title":"t"}'' = Some (JObj [(''title'', JStr ''t'')])\<close>
    by (simp add: example_world_def example_parse_def)
  have e: \<open>JSON_parse example_world ''{"ok":true,"data":{"id":"1"}}'' =
           Some (JObj [(''ok'', JBool True), (''data'', JObj [(''id'', JStr ''1'')])])\<close>
    by (simp add: example_world_def example_parse_def)
  have h: \<open>https_request example_world call = Inr ''{"ok":true,"data":{"id":"1"}}''\<close> for call
    by (simp add: example_world_def)
  have s1: \<open>JSON_stringify example_world
              (JObj [(''method'', JStr ''createTask''),
                     (''params'', JObj [(''title'', JStr ''t''), (''status'', JStr ''open'')])]) =
            ''{"method":"createTask","params":{"title":"t","status":"open"}}''\<close>
    by (simp add: example_world_def example_stringify_def)
  have s2: \<open>JSON_stringify example_world
              (JObj [(''ok'', JBool True), (''data'', JObj [(''id'', JStr ''1'')])]) =
            ''{"ok":true,"data":{"id":"1"}}''\<close>
    by (simp add: example_world_def example_stringify_def)
  from create_round_trip
         [of post_title example_world "JStr ''secret''" "''secret''"
             \<open>''{"ok":true,"data":{"id":"1"}}''\<close>
             "JObj [(''ok'', JBool True), (''data'', JObj [(''id'', JStr ''1'')])]",
          OF _ _ _ p getApiKey_example]
  show ?thesis
    by (simp add: post_title_def p e h s1 s2 getApiKey_example Let_def)
qed

section \<open>No credential\<close>

text \<open>
  C6, as amended. When credential resolution returns no truthy value, each of the five
  operations under \<^verbatim>\<open>/api/tasks\<close> answers with status 500 and starts no remote call. The
  error message is the missing-key message for the list, the read and the delete, and for a
  create or update whose body was read and parsed to a value other than \<^verbatim>\<open>null\<close>.
\<close>

theorem missing_credential_response:
  assumes "getApiKey w = Inr apiKey" and "\<not> is_truthy apiKey"
    and "element (pathParts req) 0 = JStr ''api''" and "element (pathParts req) 1 = JStr ''tasks''"
    and "req_method req = ''GET''
         \<or> (req_method req = ''POST'' \<and> \<not> is_truthy (element (pathParts req) 2))
         \<or> (req_method req = ''PUT'' \<and> is_truthy (element (pathParts req) 2))
         \<or> (req_method req = ''DELETE'' \<and> is_truthy (element (pathParts req) 2))"
  shows "status_code (fst (server w req)) = 500 \<and> snd (server w req) = []
         \<and> (req_method req = ''GET'' \<or> req_method req = ''DELETE''
              \<or> (\<exists>body. parseBody w req = Inr body \<and> body \<noteq> JNull \<and> body \<noteq> JUndefined) \<longrightarrow>
              fst (server w req) =
                \<lparr> status_code = 500,
                  res_headers = cors_headers @ [(''Content-Type'', ''application/json'')],
                  res_body =
                    JSON_stringify w
                      (JObj [(''ok'', JBool False),
                             (''error'', JStr ''No API key found. Please ensure ~/.local/share/amp/secrets.json exists'')]) \<rparr>)"
proof -
  note nk = ampApiRequest_no_key[OF assms(1,2)]
  have create_ok: "createTask_params body = Inl e \<Longrightarrow> body = JNull \<or> body = JUndefined"
    for body e by (simp add: createTask_params_def member_access_def split: if_splits)
  have update_ok: "updateTask_params t body = Inl e \<Longrightarrow> body = JNull \<or> body = JUndefined"
    for body t e by (simp add: updateTask_params_def member_access_def split: if_splits)
  from assms(5) consider
      (get) "req_method req = ''GET''"
    | (post) "req_method req = ''POST''" "\<not> is_truthy (element (pathParts req) 2)"
    | (put) "req_method req = ''PUT''" "is_truthy (element (pathParts req) 2)"
    | (delete) "req_method req = ''DELETE''" "is_truthy (element (pathParts req) 2)"
    by blast
  then show ?thesis
  proof cases
    case get
    then show ?thesis using assms(3,4)
      by (simp add: server_def try_block_def tasks_routes_def reply_def nk sendJson_def)
  next
    case post
    then show ?thesis using assms(3,4)
      by (auto simp: server_def try_block_def tasks_routes_def reply_def nk sendJson_def
          split: sum.splits dest: create_ok)
  next
    case put
    then show ?thesis using assms(3,4)
      by (auto simp: server_def try_block_def tasks_routes_def reply_def nk sendJson_def
          split: sum.splits dest: update_ok)
  next
    case delete
    then show ?thesis using assms(3,4)
      by (simp add: server_def try_block_def tasks_routes_def reply_def nk sendJson_def)
  qed
qed

theorem missing_credential_response_witness:
  \<open>getApiKey no_credential_world = Inr JUndefined
   \<and> pathParts delete_85 = [''api'', ''tasks'', ''85'']
   \<and> server no_credential_world delete_85 =
       (\<lparr> status_code = 500,
          res_headers = cors_headers @ [(''Content-Type'', ''application/json'')],
          res_body = ''{"ok":false,"error":"No API key found. Please ensure ~/.local/share/amp/secrets.json exists"}'' \<rparr>,
        [])\<close>
proof -
  have pp: "pathParts delete_85 = [''api'', ''tasks'', ''85'']"
    by (rule pathParts_tasks_85) (simp add: delete_85_def)
  have m: "req_method delete_85 = ''DELETE''"
    by (simp add: delete_85_def)
  have s: \<open>JSON_stringify no_credential_world
           (JObj [(''ok'', JBool False),
                  (''error'', JStr ''No API key found. Please ensure ~/.local/share/amp/secrets.json exists'')]) =
         ''{"ok":false,"error":"No API key found. Please ensure ~/.local/share/amp/secrets.json exists"}''\<close>
    by (simp add: no_credential_world_def example_world_def example_stringify_def)
  from missing_credential_response[OF getApiKey_no_credential, of delete_85]
  have "snd (server no_credential_world delete_85) = []"
    and "fst (server no_credential_world delete_85) =
       \<lparr> status_code = 500,
          res_headers = cors_headers @ [(''Content-Type'', ''application/json'')],
          res_body = JSON_stringify no_credential_world
           (JObj [(''ok'', JBool False),
                  (''error'', JStr ''No API key found. Please ensure ~/.local/share/amp/secrets.json exists'')]) \<rparr>"
    by (simp_all add: pp m element_def)
  then show ?thesis
    using pp getApiKey_no_credential by (simp add: s prod_eq_iff)
qed

text \<open>
  C6 as stated fails on a create whose body is not JSON: without any credential the
  response is a 500 whose message is about the request body, not about the credential.
\<close>

theorem broken_body_counterexample:
  \<open>getApiKey no_credential_world = Inr JUndefined
   \<and> pathParts post_broken = [''api'', ''tasks'']
   \<and> try_block no_credential_world post_broken = (Inl (Error ''Invalid JSON in request body''), [])
   \<and> server no_credential_world post_broken =
       (\<lparr> status_code = 500,
          res_headers = cors_headers @ [(''Content-Type'', ''application/json'')],
          res_body = ''{"ok":false,"error":"Invalid JSON in request body"}'' \<rparr>,
        [])\<close>
proof -
  have pp: "pathParts post_broken = [''api'', ''tasks'']"
    by (rule pathParts_tasks) (simp add: post_broken_def)
  have b: "parseBody no_credential_world post_broken = Inl (Error ''Invalid JSON in request body'')"
    by (rule parseBody_invalid[where raw="''{''"])
       (simp_all add: post_broken_def no_credential_world_def example_world_def example_parse_def)
  have t: "try_block no_credential_world post_broken = (Inl (Error ''Invalid JSON in request body''), [])"
    by (simp add: try_block_def pp element_def tasks_routes_def b) (simp add: post_broken_def)
  have s: \<open>JSON_stringify no_credential_world
           (JObj [(''ok'', JBool False), (''error'', JStr ''Invalid JSON in request body'')]) =
         ''{"ok":false,"error":"Invalid JSON in request body"}''\<close>
    by (simp add: no_credential_world_def example_world_def example_stringify_def)
  have m: "req_method post_broken \<noteq> ''OPTIONS''"
    by (simp add: post_broken_def)
  show ?thesis
    using pp getApiKey_no_credential t m by (simp add: server_def sendJson_def s)
qed

end
